theory Spec2Isabelle
  imports Main "HOL-Library.Word"
begin

section \<open>xcom/base.h: the interop support layer\<close>

text \<open>
  A shallow embedding of \<^verbatim>\<open>src/xcom/base.h\<close>: the unwrap operation
  \<^verbatim>\<open>xcom::UnwrapInterface\<close>, the identifier lookup \<^verbatim>\<open>xcom::guid_of\<close>, the
  register-return adapter \<^verbatim>\<open>reg_return_t\<close> / \<^verbatim>\<open>to_reg_return\<close> and the two
  diagnostic handlers \<^verbatim>\<open>xcom::StubHandler\<close> and \<^verbatim>\<open>xcom::TodoHandler\<close>.
  Calls into the platform (the object's \<^verbatim>\<open>QueryInterface\<close>, \<^verbatim>\<open>MessageBoxA\<close>,
  \<^verbatim>\<open>OutputDebugStringA\<close>, ...) are effects on an explicit state that records them.
\<close>

subsection \<open>Status codes and identifiers\<close>

text \<open>
  \<^verbatim>\<open>HRESULT\<close> is a signed 32-bit integer; \<^verbatim>\<open>SUCCEEDED(hr)\<close> is \<^verbatim>\<open>hr >= 0\<close> and
  \<^verbatim>\<open>FAILED(hr)\<close> is \<^verbatim>\<open>hr < 0\<close>, both on the signed reading. The three constants
  are those of the platform headers the file includes through \<^verbatim>\<open>objbase.h\<close>.
\<close>

type_synonym HRESULT = "32 word"

definition S_OK :: HRESULT where
  "S_OK = 0"

definition S_FALSE :: HRESULT where
  "S_FALSE = 1"

definition E_POINTER :: HRESULT where
  "E_POINTER = 0x80004003"

definition SUCCEEDED :: "HRESULT \<Rightarrow> bool" where
  "SUCCEEDED hr = (0 \<le> sint hr)"

definition FAILED :: "HRESULT \<Rightarrow> bool" where
  "FAILED hr = (sint hr < 0)"

record GUID =
  Data1 :: "32 word"
  Data2 :: "16 word"
  Data3 :: "16 word"
  Data4 :: "8 word list"

text \<open>\<^verbatim>\<open>{7E93844E-159A-4D07-9910-87E9D65ECE00}\<close>\<close>

definition GUID_UnwrapInterface :: GUID where
  "GUID_UnwrapInterface =
     \<lparr>Data1 = 0x7E93844E, Data2 = 0x159A, Data3 = 0x4D07,
      Data4 = [0x99, 0x10, 0x87, 0xE9, 0xD6, 0x5E, 0xCE, 0x00]\<rparr>"

subsection \<open>Pointers and the state the unwrap operation runs in\<close>

text \<open>
  A pointer is \<open>None\<close> for \<^verbatim>\<open>nullptr\<close> or \<open>Some a\<close> for the address \<open>a\<close>. The
  state holds the contents of the \<^verbatim>\<open>void *\<close> locations (\<open>slots\<close>), the list of
  negotiation calls made so far (\<open>qi_calls\<close>: object, identifier, output location) and
  the failures reported through \<^verbatim>\<open>RETURN_HR\<close> (\<open>wil_reports\<close>).
\<close>

type_synonym addr = nat
type_synonym pointer = "addr option"
type_synonym memory = "addr \<Rightarrow> pointer"

abbreviation nullptr :: pointer where
  "nullptr \<equiv> None"

record machine =
  slots :: memory
  qi_calls :: "(addr \<times> GUID \<times> addr) list"
  wil_reports :: "HRESULT list"

text \<open>
  The negotiation call \<^verbatim>\<open>HRESULT QueryInterface(IUnknown *, REFIID riid, void **ppvObject)\<close>
  is the object's own code, reached through its vtable: a parameter of the model, given
  the object, the identifier, the output location and the memory, and returning a status
  and the memory it leaves.
\<close>

type_synonym query_interface = "addr \<Rightarrow> GUID \<Rightarrow> addr \<Rightarrow> memory \<Rightarrow> HRESULT \<times> memory"

definition call_QueryInterface ::
  "query_interface \<Rightarrow> addr \<Rightarrow> GUID \<Rightarrow> addr \<Rightarrow> machine \<Rightarrow> HRESULT \<times> machine" where
  "call_QueryInterface QueryInterface obj riid ppv s =
     (let (hr, m) = QueryInterface obj riid ppv (slots s)
      in (hr, s\<lparr>slots := m, qi_calls := qi_calls s @ [(obj, riid, ppv)]\<rparr>))"

text \<open>The assignment \<^verbatim>\<open>*ppvObject = value\<close>.\<close>

definition store :: "addr \<Rightarrow> pointer \<Rightarrow> machine \<Rightarrow> machine" where
  "store a v s = s\<lparr>slots := (slots s)(a := v)\<rparr>"

text \<open>
  \<^verbatim>\<open>RETURN_HR(hr)\<close> of \<^verbatim>\<open>wil/result_macros.h\<close> returns \<open>hr\<close> from the enclosing
  function, after reporting it to the library's failure log when it is a failure.
\<close>

definition RETURN_HR :: "HRESULT \<Rightarrow> machine \<Rightarrow> HRESULT \<times> machine" where
  "RETURN_HR hr s =
     (hr, if FAILED hr then s\<lparr>wil_reports := wil_reports s @ [hr]\<rparr> else s)"

subsection \<open>\<^verbatim>\<open>xcom::UnwrapInterface\<close>\<close>

definition UnwrapInterface ::
  "query_interface \<Rightarrow> pointer \<Rightarrow> pointer \<Rightarrow> machine \<Rightarrow> HRESULT \<times> machine" where
  "UnwrapInterface QueryInterface pUnknown ppvObject s =
     (case ppvObject of
        None \<Rightarrow> RETURN_HR E_POINTER s
      | Some out \<Rightarrow>
          (case pUnknown of
             None \<Rightarrow> (S_FALSE, store out nullptr s)
           | Some obj \<Rightarrow>
               (let (hr, s1) = call_QueryInterface QueryInterface obj GUID_UnwrapInterface out s
                in if SUCCEEDED hr then (hr, s1)
                   else (hr, store out nullptr s1))))"

subsection \<open>\<^verbatim>\<open>abi_t\<close> and \<^verbatim>\<open>xcom::guid_of\<close>\<close>

text \<open>
  \<^verbatim>\<open>struct abi_t\<close>: four \<^verbatim>\<open>uint32_t\<close> fields, each with the default member
  initializer 0, so that \<^verbatim>\<open>abi_t{}\<close> is the all-zero value.
\<close>

record abi_t =
  Major :: "32 word"
  Minor :: "32 word"
  Build :: "32 word"
  Revision :: "32 word"

definition abi_t_default :: abi_t where
  "abi_t_default = \<lparr>Major = 0, Minor = 0, Build = 0, Revision = 0\<rparr>"

text \<open>
  The types identifiers are looked up for: a type known by its name, or the instance
  \<^verbatim>\<open>T<v>\<close> of a template \<^verbatim>\<open>template<abi_t> typename T\<close>, known by the template's
  name and the version value. A template is its name.
\<close>

datatype cpp_type = Plain string | Instance string abi_t

text \<open>
  \<^verbatim>\<open>impl::guid_v<T>\<close> is \<^verbatim>\<open>__uuidof(T)\<close> unless an explicit specialization was
  declared for \<open>T\<close>. Both tables are facts of the build: \<open>specializations\<close> holds
  the declared specializations, \<open>uuidof\<close> what the compiler's \<^verbatim>\<open>__uuidof\<close> knows;
  \<open>None\<close> from both is the build error for a type with no identifier.
\<close>

record registry =
  specializations :: "cpp_type \<rightharpoonup> GUID"
  uuidof :: "cpp_type \<rightharpoonup> GUID"

definition guid_v :: "registry \<Rightarrow> cpp_type \<Rightarrow> GUID option" where
  "guid_v r T = (case specializations r T of Some g \<Rightarrow> Some g | None \<Rightarrow> uuidof r T)"

text \<open>\<^verbatim>\<open>template<typename T> guid_of()\<close>\<close>

definition guid_of :: "registry \<Rightarrow> cpp_type \<Rightarrow> GUID option" where
  "guid_of r T = guid_v r T"

text \<open>\<^verbatim>\<open>template<template<abi_t> typename T> guid_of()\<close>\<close>

definition guid_of_template :: "registry \<Rightarrow> string \<Rightarrow> GUID option" where
  "guid_of_template r T = guid_of r (Instance T abi_t_default)"

text \<open>
  The two declaration macros add an explicit specialization of \<^verbatim>\<open>guid_v\<close>, for the
  type itself and for \<^verbatim>\<open>type<abi_t{}>\<close>; a second specialization for the same type
  does not build (\<open>None\<close>).
\<close>

definition specialize :: "cpp_type \<Rightarrow> GUID \<Rightarrow> registry \<Rightarrow> registry option" where
  "specialize T g r =
     (case specializations r T of
        Some g' \<Rightarrow> None
      | None \<Rightarrow> Some (r\<lparr>specializations := (specializations r)(T \<mapsto> g)\<rparr>))"

definition DECLARE_UUIDOF_HELPER ::
  "cpp_type \<Rightarrow> 32 word \<Rightarrow> 16 word \<Rightarrow> 16 word \<Rightarrow> 8 word \<Rightarrow> 8 word \<Rightarrow> 8 word \<Rightarrow> 8 word \<Rightarrow>
   8 word \<Rightarrow> 8 word \<Rightarrow> 8 word \<Rightarrow> 8 word \<Rightarrow> registry \<Rightarrow> registry option" where
  "DECLARE_UUIDOF_HELPER type a b c d e f g h i j k r =
     specialize type \<lparr>Data1 = a, Data2 = b, Data3 = c, Data4 = [d, e, f, g, h, i, j, k]\<rparr> r"

definition DECLARE_ABI_UUIDOF_HELPER ::
  "string \<Rightarrow> 32 word \<Rightarrow> 16 word \<Rightarrow> 16 word \<Rightarrow> 8 word \<Rightarrow> 8 word \<Rightarrow> 8 word \<Rightarrow> 8 word \<Rightarrow>
   8 word \<Rightarrow> 8 word \<Rightarrow> 8 word \<Rightarrow> 8 word \<Rightarrow> registry \<Rightarrow> registry option" where
  "DECLARE_ABI_UUIDOF_HELPER type a b c d e f g h i j k r =
     specialize (Instance type abi_t_default)
       \<lparr>Data1 = a, Data2 = b, Data3 = c, Data4 = [d, e, f, g, h, i, j, k]\<rparr> r"

subsection \<open>\<^verbatim>\<open>reg_return_t\<close> and \<^verbatim>\<open>to_reg_return\<close>\<close>

text \<open>
  What the adapter asks of a type: \<^verbatim>\<open>std::is_class_v\<close>, \<^verbatim>\<open>std::is_union_v\<close>,
  \<^verbatim>\<open>sizeof\<close> (in bytes) and, for \<^verbatim>\<open>std::is_same_v\<close>, its identity. \<^verbatim>\<open>std::uintptr_t\<close>
  is the unsigned integer type of pointer width; \<open>W\<close> is that width in bytes (8 on a
  64-bit target, 4 on a 32-bit one).
\<close>

record ctype =
  type_name :: string
  is_class :: bool
  is_union :: bool
  sizeof :: nat

definition uintptr_t :: "nat \<Rightarrow> ctype" where
  "uintptr_t W = \<lparr>type_name = ''std::uintptr_t'', is_class = False, is_union = False, sizeof = W\<rparr>"

definition reg_return_t :: "nat \<Rightarrow> ctype \<Rightarrow> ctype" where
  "reg_return_t W T =
     (if (is_class T \<or> is_union T) \<and> sizeof T \<le> sizeof (uintptr_t W) then uintptr_t W else T)"

text \<open>
  A value is its storage: the \<^verbatim>\<open>sizeof(T)\<close> bytes of the object, in address order.
  \<^verbatim>\<open>memcpy(dst, src, n)\<close> overwrites the first \<open>n\<close> bytes of \<open>dst\<close> with the first
  \<open>n\<close> bytes of \<open>src\<close>.
\<close>

type_synonym bytes = "8 word list"

definition memcpy :: "bytes \<Rightarrow> bytes \<Rightarrow> nat \<Rightarrow> bytes" where
  "memcpy dst src n = take n src @ drop n dst"

text \<open>
  \<^verbatim>\<open>to_reg_return\<close>: the \<^verbatim>\<open>if constexpr\<close> has no \<^verbatim>\<open>else\<close>, so the statements after
  it are instantiated for every \<open>T\<close> and are simply not reached when the first branch
  returns. The definition gives what an instantiation that builds computes.
\<close>

definition to_reg_return :: "nat \<Rightarrow> ctype \<Rightarrow> bytes \<Rightarrow> bytes" where
  "to_reg_return W T val =
     (if T = reg_return_t W T then val
      else (let reg = replicate (sizeof (reg_return_t W T)) 0;
                reg = memcpy reg val (sizeof T)
            in reg))"

text \<open>
  The unsigned integer stored in a sequence of bytes, least significant byte first (the
  byte order of the targets the header builds for).
\<close>

fun uint_of_bytes :: "bytes \<Rightarrow> nat" where
  "uint_of_bytes [] = 0"
| "uint_of_bytes (b # bs) = unat b + 256 * uint_of_bytes bs"

subsection \<open>\<^verbatim>\<open>xcom::StubHandler\<close> and \<^verbatim>\<open>xcom::TodoHandler\<close>\<close>

text \<open>
  The build (\<^verbatim>\<open>_CPPRTTI\<close>, \<^verbatim>\<open>_DEBUG\<close> defined or not) and the platform the handlers
  run on: \<open>rtti_name p\<close> is \<^verbatim>\<open>((type_info const *)__RTtypeid(p))->name()\<close> for the
  object at \<open>p\<close>, and \<open>debugger_resumes\<close> says whether a breakpoint raised by
  \<^verbatim>\<open>DebugBreak\<close> is taken by a debugger that then lets the program continue.
\<close>

record environment =
  cpprtti :: bool
  debug_build :: bool
  rtti_name :: "addr \<Rightarrow> string"
  debugger_resumes :: bool

text \<open>
  What the handlers leave behind: the message boxes shown (owner window, text, caption,
  type), the strings sent to the debug trace, one per call of \<^verbatim>\<open>OutputDebugStringA\<close>,
  and the number of breakpoints raised.
\<close>

record desktop =
  message_boxes :: "(pointer \<times> string \<times> string \<times> 32 word) list"
  debug_output :: "string list"
  breakpoints :: nat

text \<open>
  A call either returns to its caller or ends the process, by \<^verbatim>\<open>ExitProcess\<close> with an
  exit code or by the breakpoint exception that nothing took.
\<close>

datatype ending = ExitCode "32 word" | UnhandledBreakpoint

datatype outcome = Returns desktop | Terminated ending desktop

definition MB_ICONERROR :: "32 word" where
  "MB_ICONERROR = 0x10"

definition MessageBoxA :: "pointer \<Rightarrow> string \<Rightarrow> string \<Rightarrow> 32 word \<Rightarrow> desktop \<Rightarrow> outcome" where
  "MessageBoxA hWnd lpText lpCaption uType d =
     Returns (d\<lparr>message_boxes := message_boxes d @ [(hWnd, lpText, lpCaption, uType)]\<rparr>)"

definition DebugBreak :: "environment \<Rightarrow> desktop \<Rightarrow> outcome" where
  "DebugBreak env d =
     (if debugger_resumes env then Returns (d\<lparr>breakpoints := Suc (breakpoints d)\<rparr>)
      else Terminated UnhandledBreakpoint (d\<lparr>breakpoints := Suc (breakpoints d)\<rparr>))"

definition ExitProcess :: "32 word \<Rightarrow> desktop \<Rightarrow> outcome" where
  "ExitProcess uExitCode d = Terminated (ExitCode uExitCode) d"

definition OutputDebugStringA :: "string \<Rightarrow> desktop \<Rightarrow> outcome" where
  "OutputDebugStringA lpOutputString d =
     Returns (d\<lparr>debug_output := debug_output d @ [lpOutputString]\<rparr>)"

text \<open>Statement sequencing: the next statement runs only if the call before it returned.\<close>

definition next_do :: "outcome \<Rightarrow> (desktop \<Rightarrow> outcome) \<Rightarrow> outcome" where
  "next_do r f = (case r of Returns d \<Rightarrow> f d | Terminated e d \<Rightarrow> Terminated e d)"

definition StubHandler :: "environment \<Rightarrow> string \<Rightarrow> pointer \<Rightarrow> desktop \<Rightarrow> outcome" where
  "StubHandler env name object d =
     (let type = (if cpprtti env
                  then (case object of Some p \<Rightarrow> rtti_name env p | None \<Rightarrow> ''STUB'')
                  else ''STUB'')
      in next_do (MessageBoxA nullptr name type MB_ICONERROR d) (\<lambda>d.
         next_do (if debug_build env then DebugBreak env d else Returns d) (\<lambda>d.
         next_do (ExitProcess 0 d) (\<lambda>d.
         Returns d))))"

definition TodoHandler :: "environment \<Rightarrow> string \<Rightarrow> pointer \<Rightarrow> desktop \<Rightarrow> outcome" where
  "TodoHandler env name object d =
     (let type = (if cpprtti env
                  then (case object of Some p \<Rightarrow> Some (rtti_name env p) | None \<Rightarrow> None)
                  else None)
      in next_do (OutputDebugStringA ''TODO: '' d) (\<lambda>d.
         next_do (OutputDebugStringA name d) (\<lambda>d.
         next_do (case type of
                    Some t \<Rightarrow>
                      next_do (OutputDebugStringA ''(from '' d) (\<lambda>d.
                      next_do (OutputDebugStringA t d) (\<lambda>d.
                      OutputDebugStringA '')'' d))
                  | None \<Rightarrow> Returns d) (\<lambda>d.
         next_do (OutputDebugStringA [CHR 0x0A] d) (\<lambda>d.
         Returns d)))))"

text \<open>
  In \<open>TodoHandler\<close> the C string \<^verbatim>\<open>type\<close> may be null: \<open>None\<close> is its null pointer,
  \<open>Some t\<close> the string \<open>t\<close>.
\<close>

text \<open>The characters sent to the debug trace, in order.\<close>

definition trace_text :: "desktop \<Rightarrow> string" where
  "trace_text d = concat (debug_output d)"

subsection \<open>Sample negotiation calls and states\<close>

text \<open>
  A negotiation call that refuses every identifier with \<^verbatim>\<open>E_NOINTERFACE\<close>
  (\<^verbatim>\<open>0x80004002\<close>) and yet leaves a stale pointer in the output location; one that
  answers the reserved identifier with the object itself and \<^verbatim>\<open>S_OK\<close>; and one that
  does the same but reports \<^verbatim>\<open>S_FALSE\<close>.
\<close>

definition E_NOINTERFACE :: HRESULT where
  "E_NOINTERFACE = 0x80004002"

definition refusing_query :: query_interface where
  "refusing_query obj riid ppv m = (E_NOINTERFACE, m(ppv := Some 99))"

definition answering_query :: query_interface where
  "answering_query obj riid ppv m =
     (if riid = GUID_UnwrapInterface then (S_OK, m(ppv := Some obj))
      else (E_NOINTERFACE, m(ppv := nullptr)))"

definition odd_query :: query_interface where
  "odd_query obj riid ppv m = (S_FALSE, m(ppv := Some obj))"

definition empty_machine :: machine where
  "empty_machine = \<lparr>slots = (\<lambda>a. nullptr), qi_calls = [], wil_reports = []\<rparr>"

subsection \<open>Sample registries\<close>

text \<open>
  A build with no identifier at all; the same after
  \<^verbatim>\<open>DECLARE_ABI_UUIDOF_HELPER(IFoo, 1, 2, 3, 4, 5, 6, 7, 8, 9, 10, 11)\<close>; and that one
  after a further \<^verbatim>\<open>DECLARE_UUIDOF_HELPER\<close> for the instance of \<^verbatim>\<open>IFoo\<close> at the
  version value 2.0.0.0.
\<close>

definition abi_v2 :: abi_t where
  "abi_v2 = \<lparr>Major = 2, Minor = 0, Build = 0, Revision = 0\<rparr>"

definition empty_registry :: registry where
  "empty_registry = \<lparr>specializations = Map.empty, uuidof = Map.empty\<rparr>"

definition registry_v0 :: registry where
  "registry_v0 =
     \<lparr>specializations = [Instance ''IFoo'' abi_t_default \<mapsto>
        \<lparr>Data1 = 1, Data2 = 2, Data3 = 3, Data4 = [4, 5, 6, 7, 8, 9, 10, 11]\<rparr>],
      uuidof = Map.empty\<rparr>"

definition registry_v2 :: registry where
  "registry_v2 =
     \<lparr>specializations = [Instance ''IFoo'' abi_t_default \<mapsto>
        \<lparr>Data1 = 1, Data2 = 2, Data3 = 3, Data4 = [4, 5, 6, 7, 8, 9, 10, 11]\<rparr>,
        Instance ''IFoo'' abi_v2 \<mapsto>
        \<lparr>Data1 = 21, Data2 = 22, Data3 = 23, Data4 = [24, 25, 26, 27, 28, 29, 30, 31]\<rparr>],
      uuidof = Map.empty\<rparr>"

subsection \<open>Sample types\<close>

text \<open>
  An 8-byte and a 16-byte struct, a 4-byte union, a 3-byte struct and the scalar
  \<^verbatim>\<open>int32_t\<close>.
\<close>

definition small_struct :: ctype where
  "small_struct = \<lparr>type_name = ''POINT'', is_class = True, is_union = False, sizeof = 8\<rparr>"

definition large_struct :: ctype where
  "large_struct = \<lparr>type_name = ''RECT'', is_class = True, is_union = False, sizeof = 16\<rparr>"

definition small_union :: ctype where
  "small_union = \<lparr>type_name = ''Color'', is_class = False, is_union = True, sizeof = 4\<rparr>"

definition rgb_struct :: ctype where
  "rgb_struct = \<lparr>type_name = ''RGB'', is_class = True, is_union = False, sizeof = 3\<rparr>"

definition int32_type :: ctype where
  "int32_type = \<lparr>type_name = ''int32_t'', is_class = False, is_union = False, sizeof = 4\<rparr>"

subsection \<open>Sample environments\<close>

text \<open>
  A release build with run-time type information in which every object is a \<^verbatim>\<open>Bar\<close>,
  a release build without run-time type information, and a desktop on which nothing has
  happened yet.
\<close>

definition rtti_env :: environment where
  "rtti_env = \<lparr>cpprtti = True, debug_build = False, rtti_name = (\<lambda>p. ''Bar''),
               debugger_resumes = False\<rparr>"

definition plain_env :: environment where
  "plain_env = \<lparr>cpprtti = False, debug_build = False, rtti_name = (\<lambda>p. ''Bar''),
                debugger_resumes = False\<rparr>"

definition empty_desktop :: desktop where
  "empty_desktop = \<lparr>message_boxes = [], debug_output = [], breakpoints = 0\<rparr>"

section \<open>Properties of the unwrap operation\<close>

lemma S_FALSE_succeeded: "SUCCEEDED S_FALSE"
  by (simp add: SUCCEEDED_def S_FALSE_def)

lemma E_POINTER_failed: "FAILED E_POINTER"
  by (simp add: FAILED_def E_POINTER_def)

lemma FAILED_iff: "FAILED hr \<longleftrightarrow> \<not> SUCCEEDED hr"
  by (auto simp: FAILED_def SUCCEEDED_def)

text \<open>
  C7. Called with a null output location, the unwrap operation returns \<^verbatim>\<open>E_POINTER\<close>
  whatever the input reference is (null or not); the negotiation call is not invoked and
  no location is written: the list of negotiation calls and the contents of all
  locations are those of the state before the call.
\<close>

theorem unwrap_null_out:
  "fst (UnwrapInterface QueryInterface pUnknown nullptr s) = E_POINTER
   \<and> FAILED (fst (UnwrapInterface QueryInterface pUnknown nullptr s))
   \<and> qi_calls (snd (UnwrapInterface QueryInterface pUnknown nullptr s)) = qi_calls s
   \<and> slots (snd (UnwrapInterface QueryInterface pUnknown nullptr s)) = slots s"
  by (simp add: UnwrapInterface_def RETURN_HR_def E_POINTER_failed)

lemma unwrap_null_ref_eq:
  "UnwrapInterface QueryInterface nullptr (Some out) s = (S_FALSE, store out nullptr s)"
  by (simp add: UnwrapInterface_def)

lemma unwrap_query_succeeded:
  assumes "QueryInterface obj GUID_UnwrapInterface out (slots s) = (hr, m)"
    and "SUCCEEDED hr"
  shows "UnwrapInterface QueryInterface (Some obj) (Some out) s =
           (hr, s\<lparr>slots := m, qi_calls := qi_calls s @ [(obj, GUID_UnwrapInterface, out)]\<rparr>)"
  using assms by (simp add: UnwrapInterface_def call_QueryInterface_def)

lemma unwrap_query_failed:
  assumes "QueryInterface obj GUID_UnwrapInterface out (slots s) = (hr, m)"
    and "\<not> SUCCEEDED hr"
  shows "UnwrapInterface QueryInterface (Some obj) (Some out) s =
           (hr, s\<lparr>slots := m(out := nullptr),
                  qi_calls := qi_calls s @ [(obj, GUID_UnwrapInterface, out)]\<rparr>)"
  using assms by (simp add: UnwrapInterface_def call_QueryInterface_def store_def)

text \<open>
  C6. Called with a null input reference and a valid output location, the unwrap
  operation writes null into the output location and returns \<^verbatim>\<open>S_FALSE\<close>, a
  success status that is not \<^verbatim>\<open>S_OK\<close>; the negotiation call is not invoked and no other
  location changes.
\<close>

theorem unwrap_null_ref:
  "fst (UnwrapInterface QueryInterface nullptr (Some out) s) = S_FALSE
   \<and> S_FALSE \<noteq> S_OK \<and> SUCCEEDED S_FALSE
   \<and> slots (snd (UnwrapInterface QueryInterface nullptr (Some out) s)) = (slots s)(out := nullptr)
   \<and> slots (snd (UnwrapInterface QueryInterface nullptr (Some out) s)) out = nullptr
   \<and> qi_calls (snd (UnwrapInterface QueryInterface nullptr (Some out) s)) = qi_calls s"
  by (simp add: unwrap_null_ref_eq store_def S_FALSE_succeeded) (simp add: S_FALSE_def S_OK_def)

text \<open>
  C5. For a non-null reference whose negotiation call, made with the reserved identifier
  \<^verbatim>\<open>GUID_UnwrapInterface\<close> and the caller's output location, fails with the status
  \<open>hr\<close>, the unwrap operation returns exactly \<open>hr\<close> and leaves the output location
  null, whatever the negotiation call had stored there; the negotiation call was made
  once, with the reserved identifier.
\<close>

theorem unwrap_failure_verbatim:
  assumes "QueryInterface obj GUID_UnwrapInterface out (slots s) = (hr, m)"
    and "FAILED hr"
  shows "fst (UnwrapInterface QueryInterface (Some obj) (Some out) s) = hr
   \<and> slots (snd (UnwrapInterface QueryInterface (Some obj) (Some out) s)) out = nullptr
   \<and> slots (snd (UnwrapInterface QueryInterface (Some obj) (Some out) s)) = m(out := nullptr)
   \<and> qi_calls (snd (UnwrapInterface QueryInterface (Some obj) (Some out) s)) =
       qi_calls s @ [(obj, GUID_UnwrapInterface, out)]"
proof -
  from assms(2) have "\<not> SUCCEEDED hr"
    by (simp add: FAILED_iff)
  with assms(1) show ?thesis
    by (simp add: unwrap_query_failed)
qed

theorem unwrap_failure_verbatim_witness:
  "FAILED E_NOINTERFACE
   \<and> refusing_query 1 GUID_UnwrapInterface 2 (slots empty_machine) =
       (E_NOINTERFACE, (slots empty_machine)(2 := Some 99))
   \<and> fst (UnwrapInterface refusing_query (Some 1) (Some 2) empty_machine) = E_NOINTERFACE
   \<and> slots (snd (UnwrapInterface refusing_query (Some 1) (Some 2) empty_machine)) 2 = nullptr"
proof -
  have q: "refusing_query 1 GUID_UnwrapInterface 2 (slots empty_machine) =
             (E_NOINTERFACE, (slots empty_machine)(2 := Some 99))"
    by (simp add: refusing_query_def)
  have f: "FAILED E_NOINTERFACE"
    by (simp add: FAILED_def E_NOINTERFACE_def)
  from unwrap_failure_verbatim
         [of refusing_query 1 2 empty_machine E_NOINTERFACE
             "(slots empty_machine)(2 := Some 99)", OF q f] q f
  show ?thesis
    by simp
qed

text \<open>
  C10. When the negotiation call succeeds with the status \<open>hr\<close>, the unwrap operation
  returns \<open>hr\<close> itself and keeps what the negotiation call stored, whatever success
  status \<open>hr\<close> is. So when that status is \<^verbatim>\<open>S_FALSE\<close>, the call returns the same
  value as a call with a null input reference does.
\<close>

theorem unwrap_success_verbatim:
  assumes "QueryInterface obj GUID_UnwrapInterface out (slots s) = (hr, m)"
    and "SUCCEEDED hr"
  shows "fst (UnwrapInterface QueryInterface (Some obj) (Some out) s) = hr
   \<and> slots (snd (UnwrapInterface QueryInterface (Some obj) (Some out) s)) = m
   \<and> (hr = S_FALSE \<longrightarrow>
        fst (UnwrapInterface QueryInterface (Some obj) (Some out) s) =
        fst (UnwrapInterface QueryInterface nullptr (Some out) s))"
proof -
  from assms have e: "UnwrapInterface QueryInterface (Some obj) (Some out) s =
      (hr, s\<lparr>slots := m, qi_calls := qi_calls s @ [(obj, GUID_UnwrapInterface, out)]\<rparr>)"
    by (rule unwrap_query_succeeded)
  show ?thesis
    by (simp add: e unwrap_null_ref_eq)
qed

text \<open>
  The negotiation call \<open>odd_query\<close> succeeds with \<^verbatim>\<open>S_FALSE\<close> and stores a real
  pointer: the unwrap operation returns \<^verbatim>\<open>S_FALSE\<close>, not \<^verbatim>\<open>S_OK\<close>, the value it
  also returns for a null input reference, while the output location holds the object in
  the first case and null in the second.
\<close>

theorem unwrap_success_verbatim_witness:
  "SUCCEEDED S_FALSE \<and> S_FALSE \<noteq> S_OK
   \<and> fst (UnwrapInterface odd_query (Some 1) (Some 2) empty_machine) = S_FALSE
   \<and> fst (UnwrapInterface odd_query nullptr (Some 2) empty_machine) = S_FALSE
   \<and> slots (snd (UnwrapInterface odd_query (Some 1) (Some 2) empty_machine)) 2 = Some 1
   \<and> slots (snd (UnwrapInterface odd_query nullptr (Some 2) empty_machine)) 2 = nullptr"
proof -
  have q: "odd_query 1 GUID_UnwrapInterface 2 (slots empty_machine) =
             (S_FALSE, (slots empty_machine)(2 := Some 1))"
    by (simp add: odd_query_def)
  have d: "S_FALSE \<noteq> S_OK"
    by (simp add: S_FALSE_def S_OK_def)
  from unwrap_success_verbatim
         [of odd_query 1 2 empty_machine S_FALSE "(slots empty_machine)(2 := Some 1)",
          OF q S_FALSE_succeeded] d
  show ?thesis
    by (simp add: S_FALSE_succeeded unwrap_null_ref_eq store_def)
qed

text \<open>
  C1. For a call with a valid output location \<open>out\<close>, on return the location is either
  null, or the input reference was an object whose negotiation call (made with the
  reserved identifier and \<open>out\<close>) succeeded with the status that is returned, and the
  location holds exactly what that call left there. On every failure status the location
  is null, and so it is for a null input reference. Hence any property \<open>owned\<close> that the
  negotiation call guarantees of the pointer it leaves on success holds of the location
  whenever it is not null.
\<close>

theorem unwrap_out_null_or_owned:
  assumes "UnwrapInterface QueryInterface pUnknown (Some out) s = (hr, s')"
  shows "(slots s' out = nullptr
          \<or> (\<exists>obj m. pUnknown = Some obj
                \<and> QueryInterface obj GUID_UnwrapInterface out (slots s) = (hr, m)
                \<and> SUCCEEDED hr \<and> slots s' out = m out))
   \<and> (FAILED hr \<longrightarrow> slots s' out = nullptr)
   \<and> (pUnknown = nullptr \<longrightarrow> slots s' out = nullptr)
   \<and> ((\<forall>obj m h m'. QueryInterface obj GUID_UnwrapInterface out m = (h, m') \<and> SUCCEEDED h
          \<longrightarrow> m' out = nullptr \<or> owned (m' out))
        \<longrightarrow> slots s' out = nullptr \<or> owned (slots s' out))"
proof (cases pUnknown)
  case None
  with assms have "s' = store out nullptr s"
    by (simp add: unwrap_null_ref_eq)
  then have "slots s' out = nullptr"
    by (simp add: store_def)
  then show ?thesis
    by simp
next
  case (Some obj)
  obtain h m where q: "QueryInterface obj GUID_UnwrapInterface out (slots s) = (h, m)"
    by (cases "QueryInterface obj GUID_UnwrapInterface out (slots s)")
  show ?thesis
  proof (cases "SUCCEEDED h")
    case True
    from assms Some q True have r: "hr = h" "slots s' = m"
      by (auto simp: unwrap_query_succeeded)
    with q True Some show ?thesis
      by (auto simp: FAILED_iff)
  next
    case False
    from assms Some q False have "slots s' = m(out := nullptr)"
      by (auto simp: unwrap_query_failed)
    then have "slots s' out = nullptr"
      by simp
    then show ?thesis
      by simp
  qed
qed

theorem unwrap_out_null_or_owned_witness:
  "UnwrapInterface answering_query (Some 1) (Some 2) empty_machine =
     (S_OK, \<lparr>slots = (\<lambda>a. nullptr)(2 := Some 1),
             qi_calls = [(1, GUID_UnwrapInterface, 2)], wil_reports = []\<rparr>)
   \<and> answering_query 1 GUID_UnwrapInterface 2 (slots empty_machine) =
       (S_OK, (\<lambda>a. nullptr)(2 := Some 1))
   \<and> SUCCEEDED S_OK
   \<and> slots (snd (UnwrapInterface answering_query (Some 1) (Some 2) empty_machine)) 2 = Some 1
   \<and> UnwrapInterface refusing_query (Some 1) (Some 2) empty_machine =
       (E_NOINTERFACE, \<lparr>slots = (\<lambda>a. nullptr)(2 := nullptr),
             qi_calls = [(1, GUID_UnwrapInterface, 2)], wil_reports = []\<rparr>)
   \<and> FAILED E_NOINTERFACE
   \<and> slots (snd (UnwrapInterface refusing_query (Some 1) (Some 2) empty_machine)) 2 = nullptr"
proof -
  have a: "UnwrapInterface answering_query (Some 1) (Some 2) empty_machine =
     (S_OK, \<lparr>slots = (\<lambda>a. nullptr)(2 := Some 1),
             qi_calls = [(1, GUID_UnwrapInterface, 2)], wil_reports = []\<rparr>)"
    by (simp add: UnwrapInterface_def call_QueryInterface_def answering_query_def
        empty_machine_def SUCCEEDED_def S_OK_def)
  have b: "UnwrapInterface refusing_query (Some 1) (Some 2) empty_machine =
       (E_NOINTERFACE, \<lparr>slots = (\<lambda>a. nullptr)(2 := nullptr),
             qi_calls = [(1, GUID_UnwrapInterface, 2)], wil_reports = []\<rparr>)"
    by (simp add: UnwrapInterface_def call_QueryInterface_def refusing_query_def
        empty_machine_def SUCCEEDED_def E_NOINTERFACE_def store_def)
  have f: "FAILED E_NOINTERFACE"
    by (simp add: FAILED_def E_NOINTERFACE_def)
  have s: "SUCCEEDED S_OK"
    by (simp add: SUCCEEDED_def S_OK_def)
  have q: "answering_query 1 GUID_UnwrapInterface 2 (slots empty_machine) =
       (S_OK, (\<lambda>a. nullptr)(2 := Some 1))"
    by (simp add: answering_query_def empty_machine_def)
  from unwrap_out_null_or_owned [OF b, of "\<lambda>p. False"] f
  have n: "slots \<lparr>slots = (\<lambda>a. nullptr)(2 := nullptr),
             qi_calls = [(1, GUID_UnwrapInterface, 2)], wil_reports = []\<rparr> 2 = nullptr"
    by blast
  have "\<forall>obj m h m'. answering_query obj GUID_UnwrapInterface 2 m = (h, m') \<and> SUCCEEDED h
          \<longrightarrow> m' 2 = nullptr \<or> m' 2 \<noteq> nullptr"
    by blast
  with unwrap_out_null_or_owned [OF a, of "\<lambda>p. p \<noteq> nullptr"]
  have "slots \<lparr>slots = (\<lambda>a. nullptr)(2 := Some 1),
             qi_calls = [(1, GUID_UnwrapInterface, 2)], wil_reports = []\<rparr> 2 = nullptr
        \<or> (\<exists>obj m. Some 1 = Some obj
              \<and> answering_query obj GUID_UnwrapInterface 2 (slots empty_machine) = (S_OK, m)
              \<and> SUCCEEDED S_OK
              \<and> slots \<lparr>slots = (\<lambda>a. nullptr)(2 := Some 1),
                   qi_calls = [(1, GUID_UnwrapInterface, 2)], wil_reports = []\<rparr> 2 = m 2)"
    by blast
  with n a b f s q show ?thesis
    by simp
qed

section \<open>Properties of the identifier lookup\<close>

lemma guid_of_specialize_other:
  assumes "specialize T' g r = Some r'" and "T' \<noteq> T"
  shows "guid_of r' T = guid_of r T"
  using assms by (auto simp: specialize_def guid_of_def guid_v_def split: option.splits)

lemma guid_of_specialize_same:
  assumes "specialize T g r = Some r'"
  shows "guid_of r' T = Some g"
  using assms by (auto simp: specialize_def guid_of_def guid_v_def split: option.splits)

text \<open>
  C2. For a template \<open>T\<close> taking a version value, the family lookup
  \<^verbatim>\<open>guid_of<T>()\<close> is the primary lookup \<^verbatim>\<open>guid_of<T<abi_t{}>>()\<close> at the
  default-constructed version value, whose four fields are zero. The family has that one
  identifier: the declaration for the template gives it, and a specialization declared
  for an instance at any other version value does not change it.
\<close>

theorem guid_of_template_default:
  "guid_of_template r T = guid_of r (Instance T abi_t_default)
   \<and> abi_t_default = \<lparr>Major = 0, Minor = 0, Build = 0, Revision = 0\<rparr>
   \<and> (DECLARE_ABI_UUIDOF_HELPER T a b c d e f g h i j k r = Some r' \<longrightarrow>
        guid_of_template r' T =
          Some \<lparr>Data1 = a, Data2 = b, Data3 = c, Data4 = [d, e, f, g, h, i, j, k]\<rparr>)
   \<and> (v \<noteq> abi_t_default \<and>
        DECLARE_UUIDOF_HELPER (Instance T v) a b c d e f g h i j k r = Some r' \<longrightarrow>
        guid_of_template r' T = guid_of_template r T)"
  by (auto simp: guid_of_template_def abi_t_default_def DECLARE_ABI_UUIDOF_HELPER_def
      DECLARE_UUIDOF_HELPER_def guid_of_specialize_same guid_of_specialize_other)

theorem guid_of_template_default_witness:
  "DECLARE_ABI_UUIDOF_HELPER ''IFoo'' 1 2 3 4 5 6 7 8 9 10 11 empty_registry =
     Some registry_v0
   \<and> guid_of_template registry_v0 ''IFoo'' =
       Some \<lparr>Data1 = 1, Data2 = 2, Data3 = 3, Data4 = [4, 5, 6, 7, 8, 9, 10, 11]\<rparr>
   \<and> abi_v2 \<noteq> abi_t_default
   \<and> DECLARE_UUIDOF_HELPER (Instance ''IFoo'' abi_v2) 21 22 23 24 25 26 27 28 29 30 31 registry_v0 =
       Some registry_v2
   \<and> guid_of registry_v2 (Instance ''IFoo'' abi_v2) =
       Some \<lparr>Data1 = 21, Data2 = 22, Data3 = 23, Data4 = [24, 25, 26, 27, 28, 29, 30, 31]\<rparr>
   \<and> guid_of_template registry_v2 ''IFoo'' =
       Some \<lparr>Data1 = 1, Data2 = 2, Data3 = 3, Data4 = [4, 5, 6, 7, 8, 9, 10, 11]\<rparr>"
proof -
  have d0: "DECLARE_ABI_UUIDOF_HELPER ''IFoo'' 1 2 3 4 5 6 7 8 9 10 11 empty_registry =
      Some registry_v0"
    by (simp add: DECLARE_ABI_UUIDOF_HELPER_def specialize_def empty_registry_def
        registry_v0_def)
  have ne: "abi_v2 \<noteq> abi_t_default"
    by (simp add: abi_v2_def abi_t_default_def)
  have d2: "DECLARE_UUIDOF_HELPER (Instance ''IFoo'' abi_v2) 21 22 23 24 25 26 27 28 29 30 31
      registry_v0 = Some registry_v2"
    using ne by (simp add: DECLARE_UUIDOF_HELPER_def specialize_def registry_v0_def
        registry_v2_def)
  have g2: "guid_of registry_v2 (Instance ''IFoo'' abi_v2) =
       Some \<lparr>Data1 = 21, Data2 = 22, Data3 = 23, Data4 = [24, 25, 26, 27, 28, 29, 30, 31]\<rparr>"
    by (simp add: guid_of_def guid_v_def registry_v2_def)
  from guid_of_template_default
         [of empty_registry "''IFoo''" 1 2 3 4 5 6 7 8 9 10 11 registry_v0 abi_v2] d0
  have t0: "guid_of_template registry_v0 ''IFoo'' =
       Some \<lparr>Data1 = 1, Data2 = 2, Data3 = 3, Data4 = [4, 5, 6, 7, 8, 9, 10, 11]\<rparr>"
    by blast
  from guid_of_template_default
         [of registry_v0 "''IFoo''" 21 22 23 24 25 26 27 28 29 30 31 registry_v2 abi_v2] ne d2
  have "guid_of_template registry_v2 ''IFoo'' = guid_of_template registry_v0 ''IFoo''"
    by blast
  with d0 ne d2 g2 t0 show ?thesis
    by simp
qed

section \<open>Properties of the register-return adapter\<close>

lemma sizeof_uintptr_t: "sizeof (uintptr_t W) = W"
  by (simp add: uintptr_t_def)

lemma uintptr_t_not_aggregate: "\<not> is_class (uintptr_t W) \<and> \<not> is_union (uintptr_t W)"
  by (simp add: uintptr_t_def)

lemma reg_return_t_small:
  assumes "is_class T \<or> is_union T" and "sizeof T \<le> W"
  shows "reg_return_t W T = uintptr_t W"
  using assms by (simp add: reg_return_t_def sizeof_uintptr_t)

lemma reg_return_t_other:
  assumes "\<not> ((is_class T \<or> is_union T) \<and> sizeof T \<le> W)"
  shows "reg_return_t W T = T"
  using assms by (auto simp: reg_return_t_def sizeof_uintptr_t)

lemma to_reg_return_other:
  assumes "\<not> ((is_class T \<or> is_union T) \<and> sizeof T \<le> W)"
  shows "to_reg_return W T val = val"
  using assms by (simp add: to_reg_return_def reg_return_t_other)

lemma small_aggregate_not_uintptr_t:
  assumes "is_class T \<or> is_union T"
  shows "T \<noteq> uintptr_t W"
  using assms uintptr_t_not_aggregate by auto

lemma to_reg_return_small:
  assumes "is_class T \<or> is_union T" and "sizeof T \<le> W"
  shows "to_reg_return W T val = take (sizeof T) val @ drop (sizeof T) (replicate W 0)"
proof -
  from assms have r: "reg_return_t W T = uintptr_t W"
    by (rule reg_return_t_small)
  from assms(1) have "T \<noteq> uintptr_t W"
    by (rule small_aggregate_not_uintptr_t)
  with r show ?thesis
    by (simp add: to_reg_return_def memcpy_def sizeof_uintptr_t)
qed

lemma uint_of_zero_bytes: "uint_of_bytes (replicate n 0) = 0"
  by (induction n) simp_all

lemma uint_of_bytes_zero_padded: "uint_of_bytes (bs @ replicate n 0) = uint_of_bytes bs"
  by (induction bs) (simp_all add: uint_of_zero_bytes)

lemma uint_of_bytes_bound: "uint_of_bytes bs < 256 ^ length bs"
proof (induction bs)
  case Nil
  show ?case by simp
next
  case (Cons b bs)
  have "unat b < 256"
    using unsigned_less [of b, where ?'a = nat] by simp
  with Cons show ?case
    by simp
qed

text \<open>
  C3. If \<open>T\<close> is a class or a union of size at most the register width \<open>W\<close>, the
  adapted return type is the register-width unsigned integer. Otherwise the adapted type
  is \<open>T\<close> and the adapter returns its argument unchanged: so for every type that is
  neither class nor union, for every type larger than a register, and for the
  register-width unsigned integer type itself.
\<close>

theorem reg_return_rule:
  "((is_class T \<or> is_union T) \<and> sizeof T \<le> W \<longrightarrow> reg_return_t W T = uintptr_t W)
   \<and> (\<not> ((is_class T \<or> is_union T) \<and> sizeof T \<le> W) \<longrightarrow>
        reg_return_t W T = T \<and> to_reg_return W T val = val)
   \<and> (\<not> is_class T \<and> \<not> is_union T \<longrightarrow> reg_return_t W T = T \<and> to_reg_return W T val = val)
   \<and> (W < sizeof T \<longrightarrow> reg_return_t W T = T \<and> to_reg_return W T val = val)
   \<and> reg_return_t W (uintptr_t W) = uintptr_t W
   \<and> to_reg_return W (uintptr_t W) val = val"
proof -
  have "reg_return_t W (uintptr_t W) = uintptr_t W"
    using uintptr_t_not_aggregate [of W] by (simp add: reg_return_t_other)
  moreover have "to_reg_return W (uintptr_t W) val = val"
    using uintptr_t_not_aggregate [of W] by (simp add: to_reg_return_other)
  ultimately show ?thesis
    by (auto simp: reg_return_t_small reg_return_t_other to_reg_return_other)
qed

theorem reg_return_rule_witness:
  "reg_return_t 8 small_struct = uintptr_t 8
   \<and> reg_return_t 8 small_union = uintptr_t 8
   \<and> reg_return_t 8 large_struct = large_struct
   \<and> to_reg_return 8 large_struct (replicate 16 0xAB) = replicate 16 0xAB
   \<and> reg_return_t 8 int32_type = int32_type
   \<and> to_reg_return 8 int32_type [0xFF, 0xFF, 0xFF, 0xFF] = [0xFF, 0xFF, 0xFF, 0xFF]
   \<and> reg_return_t 8 (uintptr_t 8) = uintptr_t 8
   \<and> to_reg_return 8 (uintptr_t 8) [1, 2, 3, 4, 5, 6, 7, 8] = [1, 2, 3, 4, 5, 6, 7, 8]"
proof -
  have a: "reg_return_t 8 small_struct = uintptr_t 8"
    using reg_return_rule [of small_struct 8 "[]"] by (simp add: small_struct_def)
  have b: "reg_return_t 8 small_union = uintptr_t 8"
    using reg_return_rule [of small_union 8 "[]"] by (simp add: small_union_def)
  have c: "reg_return_t 8 large_struct = large_struct
     \<and> to_reg_return 8 large_struct (replicate 16 0xAB) = replicate 16 0xAB"
    using reg_return_rule [of large_struct 8 "replicate 16 0xAB"] by (simp add: large_struct_def)
  have d: "reg_return_t 8 int32_type = int32_type
     \<and> to_reg_return 8 int32_type [0xFF, 0xFF, 0xFF, 0xFF] = [0xFF, 0xFF, 0xFF, 0xFF]"
    using reg_return_rule [of int32_type 8 "[0xFF, 0xFF, 0xFF, 0xFF]"]
    by (simp add: int32_type_def)
  have e: "reg_return_t 8 (uintptr_t 8) = uintptr_t 8
     \<and> to_reg_return 8 (uintptr_t 8) [1, 2, 3, 4, 5, 6, 7, 8] = [1, 2, 3, 4, 5, 6, 7, 8]"
    using reg_return_rule [of "uintptr_t 8" 8 "[1, 2, 3, 4, 5, 6, 7, 8]"] by simp
  from a b c d e show ?thesis
    by simp
qed

text \<open>
  C4. For a class or union \<open>T\<close> of size at most the register width \<open>W\<close> and a value
  stored in \<^verbatim>\<open>sizeof(T)\<close> bytes, the adapter returns a value of the register-width
  integer type, \<open>W\<close> bytes long, whose first \<^verbatim>\<open>sizeof(T)\<close> bytes are the bytes of the
  value and whose remaining bytes are zero. Read as an unsigned integer it is the number
  the value's bytes spell, below \<open>256 ^ sizeof(T)\<close>: no bit above the low
  \<^verbatim>\<open>sizeof(T)\<close> bytes is set and nothing is sign-extended or converted.
\<close>

theorem to_reg_return_bytes:
  assumes "is_class T \<or> is_union T" and "sizeof T \<le> W" and "length val = sizeof T"
  shows "reg_return_t W T = uintptr_t W
   \<and> length (to_reg_return W T val) = sizeof (uintptr_t W)
   \<and> take (sizeof T) (to_reg_return W T val) = val
   \<and> drop (sizeof T) (to_reg_return W T val) = replicate (W - sizeof T) 0
   \<and> uint_of_bytes (to_reg_return W T val) = uint_of_bytes val
   \<and> uint_of_bytes (to_reg_return W T val) < 256 ^ sizeof T"
proof -
  from assms(1,2) have "to_reg_return W T val = take (sizeof T) val @ drop (sizeof T) (replicate W 0)"
    by (rule to_reg_return_small)
  with assms(3) have e: "to_reg_return W T val = val @ replicate (W - sizeof T) 0"
    by simp
  have "uint_of_bytes val < 256 ^ sizeof T"
    using uint_of_bytes_bound [of val] assms(3) by simp
  with e assms show ?thesis
    by (simp add: reg_return_t_small sizeof_uintptr_t uint_of_bytes_zero_padded)
qed

theorem to_reg_return_bytes_witness:
  "(is_class rgb_struct \<or> is_union rgb_struct) \<and> sizeof rgb_struct \<le> 8
   \<and> length [0x11, 0x22, 0xFF :: 8 word] = sizeof rgb_struct
   \<and> to_reg_return 8 rgb_struct [0x11, 0x22, 0xFF] = [0x11, 0x22, 0xFF, 0, 0, 0, 0, 0]
   \<and> uint_of_bytes (to_reg_return 8 rgb_struct [0x11, 0x22, 0xFF]) = 0xFF2211"
proof -
  have h: "is_class rgb_struct \<or> is_union rgb_struct" "sizeof rgb_struct \<le> 8"
    "length [0x11, 0x22, 0xFF :: 8 word] = sizeof rgb_struct"
    by (simp_all add: rgb_struct_def)
  have r: "to_reg_return 8 rgb_struct [0x11, 0x22, 0xFF] = [0x11, 0x22, 0xFF, 0, 0, 0, 0, 0]"
    by (simp add: to_reg_return_def reg_return_t_def rgb_struct_def uintptr_t_def memcpy_def
        numeral_eq_Suc)
  from to_reg_return_bytes [OF h]
  have "uint_of_bytes (to_reg_return 8 rgb_struct [0x11, 0x22, 0xFF]) =
          uint_of_bytes [0x11, 0x22, 0xFF]"
    by blast
  with h r show ?thesis
    by simp
qed

section \<open>Properties of the diagnostic handlers\<close>

lemma TodoHandler_with_type:
  assumes "cpprtti env"
  shows "TodoHandler env name (Some p) d =
     Returns (d\<lparr>debug_output := debug_output d @
        [''TODO: '', name, ''(from '', rtti_name env p, '')'', [CHR 0x0A]]\<rparr>)"
  using assms by (simp add: TodoHandler_def next_do_def OutputDebugStringA_def)

lemma TodoHandler_without_type:
  assumes "\<not> cpprtti env \<or> object = nullptr"
  shows "TodoHandler env name object d =
     Returns (d\<lparr>debug_output := debug_output d @ [''TODO: '', name, [CHR 0x0A]]\<rparr>)"
  using assms by (auto simp: TodoHandler_def next_do_def OutputDebugStringA_def)

text \<open>
  C8. The incomplete marker, called with the method name \<open>n\<close>: when a type name is
  resolved (the build has run-time type information and the object pointer is not null;
  the name is then \<open>t = rtti_name env p\<close>), the characters added to the debug trace
  are exactly \<^verbatim>\<open>TODO: n(from t)\<close> and a newline; when none is resolved (no run-time
  type information, or a null object pointer), they are exactly \<^verbatim>\<open>TODO: n\<close> and a
  newline. In every case the call returns to its caller, having shown no message box and
  raised no breakpoint.
\<close>

theorem todo_trace_line:
  "(cpprtti env \<and> object = Some p \<longrightarrow>
      (\<exists>d'. TodoHandler env n object d = Returns d'
         \<and> trace_text d' =
             trace_text d @ ''TODO: '' @ n @ ''(from '' @ rtti_name env p @ '')'' @ [CHR 0x0A]))
   \<and> (\<not> cpprtti env \<or> object = nullptr \<longrightarrow>
      (\<exists>d'. TodoHandler env n object d = Returns d'
         \<and> trace_text d' = trace_text d @ ''TODO: '' @ n @ [CHR 0x0A]))
   \<and> (\<exists>d'. TodoHandler env n object d = Returns d'
         \<and> message_boxes d' = message_boxes d \<and> breakpoints d' = breakpoints d)"
proof (intro conjI impI)
  assume "cpprtti env \<and> object = Some p"
  then show "\<exists>d'. TodoHandler env n object d = Returns d'
         \<and> trace_text d' =
             trace_text d @ ''TODO: '' @ n @ ''(from '' @ rtti_name env p @ '')'' @ [CHR 0x0A]"
    by (simp add: TodoHandler_with_type trace_text_def)
next
  assume "\<not> cpprtti env \<or> object = nullptr"
  then show "\<exists>d'. TodoHandler env n object d = Returns d'
         \<and> trace_text d' = trace_text d @ ''TODO: '' @ n @ [CHR 0x0A]"
    by (simp add: TodoHandler_without_type trace_text_def)
next
  show "\<exists>d'. TodoHandler env n object d = Returns d'
         \<and> message_boxes d' = message_boxes d \<and> breakpoints d' = breakpoints d"
  proof (cases "cpprtti env \<and> object \<noteq> nullptr")
    case True
    then obtain q where "object = Some q" "cpprtti env"
      by auto
    then show ?thesis
      by (simp add: TodoHandler_with_type)
  next
    case False
    then have "\<not> cpprtti env \<or> object = nullptr"
      by simp
    then show ?thesis
      by (simp add: TodoHandler_without_type)
  qed
qed

theorem todo_trace_line_witness:
  "cpprtti rtti_env \<and> rtti_name rtti_env 7 = ''Bar''
   \<and> (\<exists>d'. TodoHandler rtti_env ''Foo'' (Some 7) empty_desktop = Returns d'
         \<and> trace_text d' = ''TODO: Foo(from Bar)'' @ [CHR 0x0A])
   \<and> (\<exists>d'. TodoHandler rtti_env ''Foo'' nullptr empty_desktop = Returns d'
         \<and> trace_text d' = ''TODO: Foo'' @ [CHR 0x0A])
   \<and> \<not> cpprtti plain_env
   \<and> (\<exists>d'. TodoHandler plain_env ''Foo'' (Some 7) empty_desktop = Returns d'
         \<and> trace_text d' = ''TODO: Foo'' @ [CHR 0x0A])"
proof -
  have e: "cpprtti rtti_env" "rtti_name rtti_env 7 = ''Bar''" "\<not> cpprtti plain_env"
    "trace_text empty_desktop = []"
    by (simp_all add: rtti_env_def plain_env_def trace_text_def empty_desktop_def)
  from todo_trace_line [of rtti_env "Some 7" 7 "''Foo''" empty_desktop] e
  have a: "\<exists>d'. TodoHandler rtti_env ''Foo'' (Some 7) empty_desktop = Returns d'
         \<and> trace_text d' = ''TODO: Foo(from Bar)'' @ [CHR 0x0A]"
    by simp
  from todo_trace_line [of rtti_env nullptr 7 "''Foo''" empty_desktop] e
  have b: "\<exists>d'. TodoHandler rtti_env ''Foo'' nullptr empty_desktop = Returns d'
         \<and> trace_text d' = ''TODO: Foo'' @ [CHR 0x0A]"
    by simp
  from todo_trace_line [of plain_env "Some 7" 7 "''Foo''" empty_desktop] e
  have c: "\<exists>d'. TodoHandler plain_env ''Foo'' (Some 7) empty_desktop = Returns d'
         \<and> trace_text d' = ''TODO: Foo'' @ [CHR 0x0A]"
    by simp
  from e a b c show ?thesis
    by simp
qed

text \<open>
  C9. The fatal stub, called with any method name and any object pointer, null or not,
  in any build, never returns to its caller. It shows the message box, with the method
  name as text and the type name (or \<^verbatim>\<open>STUB\<close>) as caption, and then the process
  ends: by \<^verbatim>\<open>ExitProcess(0)\<close>, or, in a debug build whose breakpoint no debugger
  resumes, by that breakpoint.
\<close>

theorem stub_never_returns:
  "StubHandler env name object d =
     Terminated
       (if debug_build env \<and> \<not> debugger_resumes env then UnhandledBreakpoint else ExitCode 0)
       (d\<lparr>message_boxes := message_boxes d @
            [(nullptr, name,
              if cpprtti env then (case object of Some p \<Rightarrow> rtti_name env p | None \<Rightarrow> ''STUB'')
              else ''STUB'',
              MB_ICONERROR)],
          breakpoints := (if debug_build env then Suc (breakpoints d) else breakpoints d)\<rparr>)
   \<and> (\<forall>d'. StubHandler env name object d \<noteq> Returns d')"
  by (simp add: StubHandler_def next_do_def MessageBoxA_def DebugBreak_def ExitProcess_def)

end
